theory Spec2Isabelle
  imports Complex_Main "HOL-Library.Word"
begin

section \<open>The directed graph container of \<open>MapGraphs/Digraph.hpp\<close>\<close>

text \<open>
  The class template \<open>Digraph<VertexInfo, EdgeInfo>\<close> keeps one member,
  \<open>std::map<int, DigraphVertex<VertexInfo, EdgeInfo>> info\<close>. Every member function is
  embedded below as a HOL function over that member, with the source's names.

  \<^item> Vertex numbers (C++ \<open>int\<close>) are only ever compared, never computed with, so they are
    HOL integers. Counts that the source returns as \<open>int\<close> are 32-bit words, sizes that it
    compares as \<open>size_t\<close> are 64-bit words.
  \<^item> A \<open>std::map\<close> that the code iterates over (\<open>info\<close>) is an association list in
    ascending key order, which is the order a \<open>std::map\<close> iterator follows. The two maps
    local to \<open>findShortestPaths\<close> are never iterated over and are HOL maps.
  \<^item> A \<open>double\<close> is a real number: the claims treated here only depend on sums of small
    integers, which \<open>double\<close> represents exactly.
\<close>

subsection \<open>Data\<close>

record 'e DigraphEdge =
  fromVertex :: int
  toVertex :: int
  einfo :: 'e

record ('v, 'e) DigraphVertex =
  vinfo :: 'v
  edges :: "'e DigraphEdge list"

type_synonym ('v, 'e) Digraph = "(int \<times> ('v, 'e) DigraphVertex) list"

text \<open>
  What a call does: it returns a value, it throws, or it runs into undefined behaviour of
  C++ (here: stepping an iterator whose list node was erased, or leaving a non-void function
  without a \<open>return\<close>). \<open>DigraphException\<close> carries its reason string;
  \<open>std_out_of_range\<close> is what \<open>std::map::at\<close> throws on a missing key.
\<close>

datatype exn = DigraphException string | std_out_of_range

datatype 'a outcome = Returns 'a | Throws exn | Undefined

subsection \<open>The operations of \<open>std::map\<close> that the source uses\<close>

definition info_count :: "int \<Rightarrow> ('v, 'e) Digraph \<Rightarrow> nat" where
  "info_count k g = (if k \<in> set (map fst g) then 1 else 0)"

definition info_at :: "int \<Rightarrow> ('v, 'e) Digraph \<Rightarrow> ('v, 'e) DigraphVertex option" where
  "info_at k g = map_of g k"

fun info_insert :: "int \<Rightarrow> ('v, 'e) DigraphVertex \<Rightarrow> ('v, 'e) Digraph \<Rightarrow> ('v, 'e) Digraph" where
  "info_insert k v [] = [(k, v)]"
| "info_insert k v ((k', v') # g) =
     (if k = k' then (k', v') # g
      else if k < k' then (k, v) # (k', v') # g
      else (k', v') # info_insert k v g)"

definition info_erase :: "int \<Rightarrow> ('v, 'e) Digraph \<Rightarrow> ('v, 'e) Digraph" where
  "info_erase k g = filter (\<lambda>p. fst p \<noteq> k) g"

text \<open>In-place change of the vertex stored under a key, as in \<open>info.at(k).edges.push_back(..)\<close>.\<close>

fun info_modify ::
  "int \<Rightarrow> (('v, 'e) DigraphVertex \<Rightarrow> ('v, 'e) DigraphVertex) \<Rightarrow> ('v, 'e) Digraph \<Rightarrow> ('v, 'e) Digraph"
where
  "info_modify k f [] = []"
| "info_modify k f ((k', v) # g) =
     (if k = k' then (k', f v) # g else (k', v) # info_modify k f g)"

subsection \<open>Construction and queries\<close>

definition Digraph :: "('v, 'e) Digraph" where
  "Digraph = []"

definition vertices :: "('v, 'e) Digraph \<Rightarrow> int list" where
  "vertices g = map fst g"

text \<open>\<open>edges()\<close>: every edge of every vertex, as the pair of its two stored fields.\<close>

definition edges_all :: "('v, 'e) Digraph \<Rightarrow> (int \<times> int) list" where
  "edges_all g = concat (map (\<lambda>(k, v). map (\<lambda>e. (fromVertex e, toVertex e)) (edges v)) g)"

text \<open>\<open>edges(int vertex)\<close>: the first component is the argument, not the stored field.\<close>

definition edges_of :: "int \<Rightarrow> ('v, 'e) Digraph \<Rightarrow> (int \<times> int) list outcome" where
  "edges_of vertex g =
     (if info_count vertex g = 0 then Throws (DigraphException ''Invalid vertex'')
      else case info_at vertex g of
             None \<Rightarrow> Throws std_out_of_range
           | Some v \<Rightarrow> Returns (map (\<lambda>e. (vertex, toVertex e)) (edges v)))"

definition vertexInfo :: "int \<Rightarrow> ('v, 'e) Digraph \<Rightarrow> 'v outcome" where
  "vertexInfo vertex g =
     (if info_count vertex g = 0 then Throws (DigraphException ''Invalid vertex'')
      else case info_at vertex g of
             None \<Rightarrow> Throws std_out_of_range
           | Some v \<Rightarrow> Returns (vinfo v))"

text \<open>
  \<open>edgeInfo\<close>: after the two checks, the loop returns the payload of the first edge whose
  target matches; falling out of the loop would leave the function without a \<open>return\<close>.
\<close>

definition edgeInfo :: "int \<Rightarrow> int \<Rightarrow> ('v, 'e) Digraph \<Rightarrow> 'e outcome" where
  "edgeInfo fromV toV g =
     (if info_count fromV g = 0 \<or> info_count toV g = 0
      then Throws (DigraphException ''Invalid edge'')
      else case edges_of fromV g of
             Throws x \<Rightarrow> Throws x
           | Undefined \<Rightarrow> Undefined
           | Returns temp \<Rightarrow>
               if (fromV, toV) \<notin> set temp then Throws (DigraphException ''Invalid edge'')
               else (case info_at fromV g of
                       None \<Rightarrow> Throws std_out_of_range
                     | Some v \<Rightarrow>
                         (case find (\<lambda>e. toVertex e = toV) (edges v) of
                            Some e \<Rightarrow> Returns (einfo e)
                          | None \<Rightarrow> Undefined)))"

definition vertexCount :: "('v, 'e) Digraph \<Rightarrow> 32 word" where
  "vertexCount g = of_nat (length g)"

text \<open>\<open>edgeCount(int vertex)\<close>: the size of the vertex's edge list, converted to \<open>int\<close>.\<close>

definition edgeCount_of :: "int \<Rightarrow> ('v, 'e) Digraph \<Rightarrow> 32 word outcome" where
  "edgeCount_of vertex g =
     (if info_count vertex g = 0 then Throws (DigraphException ''Invalid vertex'')
      else case info_at vertex g of
             None \<Rightarrow> Throws std_out_of_range
           | Some v \<Rightarrow> Returns (of_nat (length (edges v))))"

subsection \<open>Mutation\<close>

text \<open>
  A mutating member function is a function from the graph before the call to what the call
  does and the graph it leaves behind.
\<close>

definition addVertex :: "int \<Rightarrow> 'v \<Rightarrow> ('v, 'e) Digraph \<Rightarrow> unit outcome \<times> ('v, 'e) Digraph" where
  "addVertex vertex vi g =
     (if info_count vertex g \<noteq> 0 then (Throws (DigraphException ''Vertex already exists''), g)
      else (Returns (), info_insert vertex \<lparr>vinfo = vi, edges = []\<rparr> g))"

definition addEdge ::
  "int \<Rightarrow> int \<Rightarrow> 'e \<Rightarrow> ('v, 'e) Digraph \<Rightarrow> unit outcome \<times> ('v, 'e) Digraph"
where
  "addEdge fromV toV ei g =
     (if info_count fromV g = 0 \<or> info_count toV g = 0
      then (Throws (DigraphException ''Invalid edge''), g)
      else case edges_of fromV g of
             Throws x \<Rightarrow> (Throws x, g)
           | Undefined \<Rightarrow> (Undefined, g)
           | Returns temp \<Rightarrow>
               if (fromV, toV) \<in> set temp then (Throws (DigraphException ''Invalid edge''), g)
               else (Returns (),
                     info_modify fromV
                       (\<lambda>v. v\<lparr>edges := edges v @ [\<lparr>fromVertex = fromV, toVertex = toV, einfo = ei\<rparr>]\<rparr>)
                       g))"

text \<open>
  The loop shared in shape by \<open>removeVertex\<close> and \<open>removeEdge\<close>:
  \<^verbatim>\<open>while (it != l.end()) { if (it->toVertex == x) l.erase(it); it++; }\<close>
  \<open>std::list::erase\<close> invalidates the iterator it is given, and the next statement
  increments that iterator: undefined behaviour. The list returned is the list at that
  moment, with the node gone.
\<close>

fun erase_walk :: "int \<Rightarrow> 'e DigraphEdge list \<Rightarrow> unit outcome \<times> 'e DigraphEdge list" where
  "erase_walk x [] = (Returns (), [])"
| "erase_walk x (e # es) =
     (if toVertex e = x then (Undefined, es)
      else case erase_walk x es of (r, es') \<Rightarrow> (r, e # es'))"

text \<open>The outer loop of \<open>removeVertex\<close> over the vertices that remain.\<close>

fun removeVertex_loop ::
  "int \<Rightarrow> ('v, 'e) Digraph \<Rightarrow> unit outcome \<times> ('v, 'e) Digraph"
where
  "removeVertex_loop vertex [] = (Returns (), [])"
| "removeVertex_loop vertex ((k, v) # g) =
     (case erase_walk vertex (edges v) of
        (Returns u, es) \<Rightarrow>
          (case removeVertex_loop vertex g of (r, g') \<Rightarrow> (r, (k, v\<lparr>edges := es\<rparr>) # g'))
      | (r, es) \<Rightarrow> (r, (k, v\<lparr>edges := es\<rparr>) # g))"

definition removeVertex :: "int \<Rightarrow> ('v, 'e) Digraph \<Rightarrow> unit outcome \<times> ('v, 'e) Digraph" where
  "removeVertex vertex g =
     (if info_count vertex g = 0 then (Throws (DigraphException ''Invalid vertex''), g)
      else case removeVertex_loop vertex (info_erase vertex g) of
             (Returns u, g') \<Rightarrow> (Returns (), info_erase vertex g')
           | (r, g') \<Rightarrow> (r, g'))"

definition removeEdge :: "int \<Rightarrow> int \<Rightarrow> ('v, 'e) Digraph \<Rightarrow> unit outcome \<times> ('v, 'e) Digraph" where
  "removeEdge fromV toV g =
     (if info_count fromV g = 0 \<or> info_count toV g = 0
      then (Throws (DigraphException ''Invalid edge''), g)
      else case edges_of fromV g of
             Throws x \<Rightarrow> (Throws x, g)
           | Undefined \<Rightarrow> (Undefined, g)
           | Returns temp \<Rightarrow>
               if (fromV, toV) \<notin> set temp then (Throws (DigraphException ''Invalid edge''), g)
               else (case info_at fromV g of
                       None \<Rightarrow> (Throws std_out_of_range, g)
                     | Some v \<Rightarrow>
                         (case erase_walk toV (edges v) of
                            (r, es) \<Rightarrow> (r, info_modify fromV (\<lambda>v. v\<lparr>edges := es\<rparr>) g))))"

text \<open>
  \<open>edgeCount()\<close>: the local \<open>int total\<close> is declared without an initial value and the
  loop adds every edge list's size to it. What \<open>total\<close> holds when the loop starts is
  indeterminate; it is the parameter \<open>total0\<close>. The sum is taken in \<open>int\<close>.
\<close>

definition edgeCount :: "32 word \<Rightarrow> ('v, 'e) Digraph \<Rightarrow> 32 word" where
  "edgeCount total0 g = fold (\<lambda>(k, v) total. total + of_nat (length (edges v))) g total0"

subsection \<open>Strong connectivity\<close>

text \<open>
  \<open>checkConnectivity(from, visited)\<close> walks the edge list of \<open>from\<close>; \<open>visited\<close> is passed
  by value, so a recursive call works on a copy and its returned value is dropped. The walk
  and the recursion are one function on the edges still to visit: a call need not return,
  which is the value \<open>None\<close>. The comparison is between two \<open>size_t\<close>.
\<close>

partial_function (option) checkConnectivity_loop ::
  "('v, 'e) Digraph \<Rightarrow> 'e DigraphEdge list \<Rightarrow> int list \<Rightarrow> bool outcome option"
where
  "checkConnectivity_loop g es visited =
     (case es of
        [] \<Rightarrow> Some (Returns False)
      | e # es' \<Rightarrow>
          if toVertex e \<notin> set visited
          then checkConnectivity_loop g es' (visited @ [toVertex e])
          else if (of_nat (length visited) :: 64 word) < of_nat (length (vertices g)) - 1
          then (case info_at (toVertex e) g of
                  None \<Rightarrow> Some (Throws std_out_of_range)
                | Some v \<Rightarrow>
                    Option.bind (checkConnectivity_loop g (edges v) visited)
                      (\<lambda>r. case r of
                              Returns b \<Rightarrow> checkConnectivity_loop g es' visited
                            | Throws x \<Rightarrow> Some (Throws x)
                            | Undefined \<Rightarrow> Some Undefined))
          else Some (Returns True))"

definition checkConnectivity ::
  "int \<Rightarrow> int list \<Rightarrow> ('v, 'e) Digraph \<Rightarrow> bool outcome option"
where
  "checkConnectivity fromV visited g =
     (case info_at fromV g of
        None \<Rightarrow> Some (Throws std_out_of_range)
      | Some v \<Rightarrow> checkConnectivity_loop g (edges v) visited)"

fun isStronglyConnected_loop ::
  "('v, 'e) Digraph \<Rightarrow> ('v, 'e) Digraph \<Rightarrow> bool outcome option"
where
  "isStronglyConnected_loop g [] = Some (Returns True)"
| "isStronglyConnected_loop g ((k, v) # rest) =
     (case checkConnectivity k [] g of
        None \<Rightarrow> None
      | Some (Returns b) \<Rightarrow>
          if \<not> b then Some (Returns False) else isStronglyConnected_loop g rest
      | Some (Throws x) \<Rightarrow> Some (Throws x)
      | Some Undefined \<Rightarrow> Some Undefined)"

definition isStronglyConnected :: "('v, 'e) Digraph \<Rightarrow> bool outcome option" where
  "isStronglyConnected g = isStronglyConnected_loop g g"

subsection \<open>Shortest paths\<close>

text \<open>
  \<open>findMinimum\<close>: \<open>minVal\<close> starts at 8000000000000 and \<open>minVert\<close> is declared without an
  initial value; the function returns \<open>minVert\<close> whether or not the loop assigned it. What
  \<open>minVert\<close> holds at the start is indeterminate; it is the parameter \<open>minVert0\<close>.
\<close>

fun findMinimum_loop :: "int list \<Rightarrow> (int \<rightharpoonup> real) \<Rightarrow> real \<Rightarrow> int \<Rightarrow> int outcome" where
  "findMinimum_loop [] shortestDist minVal minVert = Returns minVert"
| "findMinimum_loop (v # vs) shortestDist minVal minVert =
     (case shortestDist v of
        None \<Rightarrow> Throws std_out_of_range
      | Some d \<Rightarrow>
          if d < minVal then findMinimum_loop vs shortestDist d v
          else findMinimum_loop vs shortestDist minVal minVert)"

definition findMinimum :: "int \<Rightarrow> int list \<Rightarrow> (int \<rightharpoonup> real) \<Rightarrow> int outcome" where
  "findMinimum minVert0 vs shortestDist = findMinimum_loop vs shortestDist 8000000000000 minVert0"

text \<open>\<open>operator[]\<close> of \<open>std::map<int, double>\<close>: a missing key is inserted with value 0.\<close>

definition subscript :: "int \<Rightarrow> (int \<rightharpoonup> real) \<Rightarrow> (int \<rightharpoonup> real)" where
  "subscript k m = (case m k of None \<Rightarrow> m(k \<mapsto> 0) | Some d \<Rightarrow> m)"

definition value_at :: "int \<Rightarrow> (int \<rightharpoonup> real) \<Rightarrow> real" where
  "value_at k m = (case m k of None \<Rightarrow> 0 | Some d \<Rightarrow> d)"

text \<open>The inner loop of \<open>findShortestPaths\<close> over the outgoing edges of \<open>current\<close>.\<close>

fun relax ::
  "('e \<Rightarrow> real) \<Rightarrow> int \<Rightarrow> 'e DigraphEdge list \<Rightarrow>
   (int \<rightharpoonup> real) \<times> (int \<rightharpoonup> int) \<Rightarrow> (int \<rightharpoonup> real) \<times> (int \<rightharpoonup> int)"
where
  "relax w current [] (shortestDist, shortestPath) = (shortestDist, shortestPath)"
| "relax w current (e # es) (shortestDist, shortestPath) =
     (let sd1 = subscript current shortestDist;
          distance = value_at current sd1 + w (einfo e);
          sd2 = subscript (toVertex e) sd1
      in if distance < value_at (toVertex e) sd2
         then relax w current es (sd2(toVertex e \<mapsto> distance), shortestPath(toVertex e \<mapsto> current))
         else relax w current es (sd2, shortestPath))"

text \<open>
  The \<open>while (!unvisited.empty())\<close> loop. \<open>junk n\<close> is what the \<open>n\<close>-th call of
  \<open>findMinimum\<close> finds in its uninitialised \<open>minVert\<close>. Erasing \<open>current\<close> from
  \<open>unvisited\<close> removes its first occurrence, if there is one. The loop need not end, which
  is the value \<open>None\<close>.
\<close>

partial_function (option) findShortestPaths_loop ::
  "(nat \<Rightarrow> int) \<Rightarrow> ('v, 'e) Digraph \<Rightarrow> ('e \<Rightarrow> real) \<Rightarrow> nat \<Rightarrow> int list \<Rightarrow>
   (int \<rightharpoonup> real) \<Rightarrow> (int \<rightharpoonup> int) \<Rightarrow> (int \<rightharpoonup> int) outcome option"
where
  "findShortestPaths_loop junk g w n unvisited shortestDist shortestPath =
     (if unvisited = [] then Some (Returns shortestPath)
      else case findMinimum (junk n) unvisited shortestDist of
             Throws x \<Rightarrow> Some (Throws x)
           | Undefined \<Rightarrow> Some Undefined
           | Returns current \<Rightarrow>
               (case info_at current g of
                  None \<Rightarrow> Some (Throws std_out_of_range)
                | Some v \<Rightarrow>
                    (case relax w current (edges v) (shortestDist, shortestPath) of
                       (sd', sp') \<Rightarrow>
                         findShortestPaths_loop junk g w (Suc n)
                           (remove1 current unvisited) sd' sp')))"

definition findShortestPaths ::
  "(nat \<Rightarrow> int) \<Rightarrow> int \<Rightarrow> ('e \<Rightarrow> real) \<Rightarrow> ('v, 'e) Digraph \<Rightarrow> (int \<rightharpoonup> int) outcome option"
where
  "findShortestPaths junk startVertex w g =
     findShortestPaths_loop junk g w 0 (map fst g)
       ((fold (\<lambda>k m. m(k \<mapsto> 80000000000000)) (map fst g) Map.empty)(startVertex \<mapsto> 0))
       [startVertex \<mapsto> startVertex]"

subsection \<open>Graphs used as concrete inputs\<close>

text \<open>Two vertices 1 and 2 and the single edge from 1 to 2.\<close>

definition one_edge :: "(string, nat) Digraph" where
  "one_edge =
     [(1, \<lparr>vinfo = ''a'', edges = [\<lparr>fromVertex = 1, toVertex = 2, einfo = 4\<rparr>]\<rparr>),
      (2, \<lparr>vinfo = ''b'', edges = []\<rparr>)]"

text \<open>Two vertices 1 and 2 and no edge: vertex 2 cannot be reached from vertex 1.\<close>

definition two_vertices :: "(string, nat) Digraph" where
  "two_vertices = [(1, \<lparr>vinfo = ''a'', edges = []\<rparr>), (2, \<lparr>vinfo = ''b'', edges = []\<rparr>)]"

text \<open>
  Vertices 1, 2 and 3 with the edges from 1 to 2, from 2 to 3 and from 1 to 3, added in
  this order and carrying the payloads \<open>a\<close>, \<open>b\<close> and \<open>c\<close>.
\<close>

definition triangle :: "'e \<Rightarrow> 'e \<Rightarrow> 'e \<Rightarrow> (unit, 'e) Digraph" where
  "triangle a b c =
     [(1, \<lparr>vinfo = (), edges = [\<lparr>fromVertex = 1, toVertex = 2, einfo = a\<rparr>,
                                \<lparr>fromVertex = 1, toVertex = 3, einfo = c\<rparr>]\<rparr>),
      (2, \<lparr>vinfo = (), edges = [\<lparr>fromVertex = 2, toVertex = 3, einfo = b\<rparr>]\<rparr>),
      (3, \<lparr>vinfo = (), edges = []\<rparr>)]"

text \<open>The directed cycle on the vertices 1 to \<open>N\<close>: each vertex points to the next, \<open>N\<close> to 1.\<close>

definition cycle :: "nat \<Rightarrow> (unit, unit) Digraph" where
  "cycle N =
     map (\<lambda>i. (int i,
               \<lparr>vinfo = (),
                edges = [\<lparr>fromVertex = int i,
                          toVertex = (if i = N then 1 else int i + 1),
                          einfo = ()\<rparr>]\<rparr>))
       [1..<Suc N]"

section \<open>Properties\<close>

subsection \<open>Auxiliary facts\<close>

text \<open>The concrete graphs are what the public operations build from the empty graph.\<close>

lemma triangle_by_calls:
  "snd (addEdge 1 3 c (snd (addEdge 2 3 b (snd (addEdge 1 2 a
     (snd (addVertex 3 () (snd (addVertex 2 () (snd (addVertex 1 () Digraph))))))))))) =
   triangle a b c"
  by (simp add: triangle_def Digraph_def addVertex_def addEdge_def info_count_def edges_of_def
      info_at_def)

lemma cycle_2_by_calls:
  "snd (addEdge 2 1 () (snd (addEdge 1 2 () (snd (addVertex 2 () (snd (addVertex 1 () Digraph))))))) =
   cycle 2"
  by (simp add: cycle_def upt_conv_Cons Digraph_def addVertex_def addEdge_def info_count_def
      edges_of_def info_at_def)

text \<open>Membership and lookup in \<open>info\<close>.\<close>

lemma info_count_iff: "info_count k g = 0 \<longleftrightarrow> k \<notin> set (vertices g)"
  by (simp add: info_count_def vertices_def)

lemma edges_of_absent:
  "k \<notin> set (vertices g) \<Longrightarrow> edges_of k g = Throws (DigraphException ''Invalid vertex'')"
  by (simp add: edges_of_def info_count_iff)

lemma erase_walk_no_throw: "fst (erase_walk x es) \<noteq> Throws e"
  by (induction es) (auto split: prod.splits)

lemma erase_walk_Throws: "erase_walk x es = (Throws e, es') \<Longrightarrow> False"
  using erase_walk_no_throw [of x es e] by simp

lemma removeVertex_loop_no_throw: "fst (removeVertex_loop x g) \<noteq> Throws e"
proof (induction g)
  case Nil
  show ?case by simp
next
  case (Cons p g)
  obtain k v where p: "p = (k, v)" by (cases p)
  obtain r es where w: "erase_walk x (edges v) = (r, es)" by (cases "erase_walk x (edges v)")
  have "r \<noteq> Throws e" using erase_walk_no_throw [of x "edges v" e] w by simp
  then show ?case using Cons p w
    by (cases r) (auto split: prod.splits)
qed

lemma vertices_info_modify: "vertices (info_modify k f g) = vertices g"
  by (induction g) (auto simp: vertices_def)

lemma info_at_info_modify: "info_at k (info_modify k f g) = map_option f (info_at k g)"
  by (induction g) (auto simp: info_at_def)

lemma info_at_Some_iff: "(\<exists>v. info_at k g = Some v) \<longleftrightarrow> k \<in> set (vertices g)"
  by (induction g) (auto simp: info_at_def vertices_def)

lemma info_modify_mem: "info_at k g = Some v \<Longrightarrow> (k, f v) \<in> set (info_modify k f g)"
  by (induction g) (auto simp: info_at_def split: if_splits)

lemma edges_all_mem:
  "(k, v) \<in> set g \<Longrightarrow> e \<in> set (edges v) \<Longrightarrow> (fromVertex e, toVertex e) \<in> set (edges_all g)"
  by (force simp: edges_all_def)

lemma find_appended:
  "\<forall>e \<in> set es. \<not> P e \<Longrightarrow> P x \<Longrightarrow> find P (es @ [x]) = Some x"
  by (induction es) auto

lemma edges_of_Returns:
  "edges_of k g = Returns temp \<longleftrightarrow>
   (\<exists>v. info_at k g = Some v \<and> temp = map (\<lambda>e. (k, toVertex e)) (edges v))"
  using info_at_Some_iff [of k g]
  by (auto simp: edges_of_def info_count_iff split: option.splits)

text \<open>
  \<open>removeVertex\<close> of a present vertex returns normally when no other vertex has an edge
  to it, and then the vertex is gone with its outgoing edges; when another vertex has an
  edge to it, the call runs into undefined behaviour.
\<close>

lemma erase_walk_untouched:
  "\<forall>e \<in> set es. toVertex e \<noteq> x \<Longrightarrow> erase_walk x es = (Returns (), es)"
  by (induction es) auto

lemma removeVertex_loop_untouched:
  "\<forall>(k, v) \<in> set g. \<forall>e \<in> set (edges v). toVertex e \<noteq> x \<Longrightarrow>
   removeVertex_loop x g = (Returns (), g)"
  by (induction g) (auto simp: erase_walk_untouched)

lemma removeVertex_without_incoming:
  assumes "x \<in> set (vertices g)"
    and "\<forall>(k, v) \<in> set g. k \<noteq> x \<longrightarrow> (\<forall>e \<in> set (edges v). toVertex e \<noteq> x)"
  shows "removeVertex x g = (Returns (), info_erase x g)"
proof -
  have "\<forall>(k, v) \<in> set (info_erase x g). \<forall>e \<in> set (edges v). toVertex e \<noteq> x"
    using assms(2) by (auto simp: info_erase_def)
  then have "removeVertex_loop x (info_erase x g) = (Returns (), info_erase x g)"
    by (rule removeVertex_loop_untouched)
  moreover have "info_erase x (info_erase x g) = info_erase x g"
    by (simp add: info_erase_def)
  ultimately show ?thesis
    using assms(1) by (simp add: removeVertex_def info_count_iff)
qed

lemma erase_walk_hit:
  "\<exists>e \<in> set es. toVertex e = x \<Longrightarrow> fst (erase_walk x es) = Undefined"
  by (induction es) (fastforce split: prod.splits)+

lemma removeVertex_loop_hit:
  "\<exists>(k, v) \<in> set g. \<exists>e \<in> set (edges v). toVertex e = x \<Longrightarrow>
   fst (removeVertex_loop x g) = Undefined"
proof (induction g)
  case Nil
  then show ?case by simp
next
  case (Cons p g)
  obtain k v where p: "p = (k, v)" by (cases p)
  show ?case
  proof (cases "\<exists>e \<in> set (edges v). toVertex e = x")
    case True
    then have "fst (erase_walk x (edges v)) = Undefined" by (rule erase_walk_hit)
    then show ?thesis using p by (auto split: prod.splits outcome.splits)
  next
    case False
    then have "erase_walk x (edges v) = (Returns (), edges v)"
      by (intro erase_walk_untouched) blast
    moreover have "fst (removeVertex_loop x g) = Undefined"
      using Cons.prems False p by (intro Cons.IH) auto
    ultimately show ?thesis using p by (auto split: prod.splits)
  qed
qed

lemma removeVertex_incoming_undefined:
  assumes "x \<in> set (vertices g)" and "(k, v) \<in> set g" and "k \<noteq> x"
    and "e \<in> set (edges v)" and "toVertex e = x"
  shows "fst (removeVertex x g) = Undefined"
proof -
  have "(k, v) \<in> set (info_erase x g)"
    using assms(2,3) by (simp add: info_erase_def)
  then have "\<exists>(k, v) \<in> set (info_erase x g). \<exists>e \<in> set (edges v). toVertex e = x"
    using assms(4,5) by blast
  then have "fst (removeVertex_loop x (info_erase x g)) = Undefined"
    by (rule removeVertex_loop_hit)
  then show ?thesis
    using assms(1) by (auto simp: removeVertex_def info_count_iff split: prod.splits)
qed

text \<open>
  \<open>checkConnectivity\<close> started on an empty \<open>visited\<close> returns false whenever the targets
  in the edge list are pairwise distinct: each target is new, so each step takes the first
  branch, and the loop falls through to \<open>return false\<close>.
\<close>

lemma checkConnectivity_loop_fresh:
  "distinct (map toVertex es) \<Longrightarrow> set (map toVertex es) \<inter> set visited = {} \<Longrightarrow>
   checkConnectivity_loop g es visited = Some (Returns False)"
proof (induction es arbitrary: visited)
  case Nil
  show ?case by (subst checkConnectivity_loop.simps) simp
next
  case (Cons e es)
  have "checkConnectivity_loop g es (visited @ [toVertex e]) = Some (Returns False)"
    using Cons.prems by (intro Cons.IH) auto
  then show ?case
    using Cons.prems by (subst checkConnectivity_loop.simps) simp
qed

lemma isStronglyConnected_first_vertex:
  assumes "distinct (map toVertex (edges v))"
  shows "isStronglyConnected ((k, v) # rest) = Some (Returns False)"
proof -
  have "checkConnectivity k [] ((k, v) # rest) = Some (Returns False)"
    using assms by (simp add: checkConnectivity_def info_at_def checkConnectivity_loop_fresh)
  then show ?thesis
    by (simp add: isStronglyConnected_def)
qed

lemma cycle_first:
  "\<exists>rest. cycle (Suc (Suc n)) =
     (1, \<lparr>vinfo = (), edges = [\<lparr>fromVertex = 1, toVertex = 2, einfo = ()\<rparr>]\<rparr>) # rest"
  unfolding cycle_def by (subst upt_conv_Cons) simp_all

text \<open>
  The keys of the map that \<open>findShortestPaths\<close> returns are the start vertex and targets of
  edges: \<open>shortestPath\<close> is written for nothing else.
\<close>

lemma relax_keys:
  "relax w current es (sd, sp) = (sd', sp') \<Longrightarrow> dom sp' \<subseteq> dom sp \<union> toVertex ` set es"
proof (induction es arbitrary: sd sp)
  case Nil
  then show ?case by simp
next
  case (Cons e es)
  then show ?case
    by (auto simp: Let_def split: if_splits dest!: Cons.IH)
qed

lemma targets_info_at:
  "info_at k g = Some v \<Longrightarrow> toVertex ` set (edges v) \<subseteq> snd ` set (edges_all g)"
proof -
  assume "info_at k g = Some v"
  then have "(k, v) \<in> set g" by (simp add: info_at_def map_of_SomeD)
  then show ?thesis by (force simp: edges_all_def)
qed

lemma findShortestPaths_loop_keys:
  assumes major: "findShortestPaths_loop junk g w n unvisited sd sp = Some r"
  shows "\<forall>m. r = Returns m \<longrightarrow> dom m \<subseteq> dom sp \<union> snd ` set (edges_all g)"
proof (rule findShortestPaths_loop.raw_induct [OF _ major], goal_cases)
  case (1 loop junk g w n unvisited sd sp r)
  note IH = 1(1) and body = 1(2)
  show ?case
  proof (intro allI impI)
    fix m
    assume r: "r = Returns m"
    show "dom m \<subseteq> dom sp \<union> snd ` set (edges_all g)"
    proof (cases "unvisited = []")
      case True
      with body r show ?thesis by simp
    next
      case False
      with body r obtain current v sd' sp' where
        at: "info_at current g = Some v" and
        rel: "relax w current (edges v) (sd, sp) = (sd', sp')" and
        rec: "loop junk g w (Suc n) (remove1 current unvisited) sd' sp' = Some (Returns m)"
        by (auto split: outcome.splits option.splits prod.splits)
      have "dom m \<subseteq> dom sp' \<union> snd ` set (edges_all g)"
        using IH [OF rec] by simp
      moreover have "dom sp' \<subseteq> dom sp \<union> toVertex ` set (edges v)"
        using rel by (rule relax_keys)
      moreover note targets_info_at [OF at]
      ultimately show ?thesis by blast
    qed
  qed
qed

text \<open>
  With two isolated vertices, once vertex 1 is settled the only unvisited vertex has
  distance 80000000000000, which is not below the 8000000000000 that \<open>findMinimum\<close> starts
  from. If \<open>minVert\<close> then holds 1, nothing is erased from \<open>unvisited\<close> and the state
  repeats.
\<close>

lemma stuck_loop:
  assumes major: "findShortestPaths_loop junk g w n unvisited sd sp = Some r"
  shows "\<not> (junk = (\<lambda>n. 1) \<and> g = two_vertices \<and> unvisited = [2] \<and>
            sd 2 = Some 80000000000000)"
proof (rule findShortestPaths_loop.raw_induct [OF _ major], goal_cases)
  case (1 loop junk g w n unvisited sd sp r)
  note IH = 1(1) and body = 1(2)
  show ?case
  proof
    assume inv: "junk = (\<lambda>n. 1) \<and> g = two_vertices \<and> unvisited = [2] \<and>
      sd 2 = Some 80000000000000"
    have "findMinimum (junk n) unvisited sd = Returns 1"
      using inv by (simp add: findMinimum_def)
    moreover have "info_at 1 g = Some \<lparr>vinfo = ''a'', edges = []\<rparr>"
      using inv by (simp add: info_at_def two_vertices_def)
    ultimately have "loop junk g w (Suc n) unvisited sd sp = Some r"
      using body inv by simp
    from IH [OF this] inv show False by simp
  qed
qed

subsection \<open>Shortest paths: the keys of the result\<close>

text \<open>
  Claim C1 says that the map returned by \<open>findShortestPaths\<close> has every vertex as a key and
  that a vertex unreachable from the start maps to itself. The code does not do this: a
  vertex other than the start that no edge points to, which is unreachable, has no entry in
  any map the function returns, whatever \<open>findMinimum\<close> reads from its uninitialised
  variable.
\<close>

theorem findShortestPaths_no_entry_for_unreached:
  assumes "findShortestPaths junk s w g = Some (Returns m)"
    and "v \<noteq> s" and "v \<notin> snd ` set (edges_all g)"
  shows "m v = None"
proof -
  have "dom m \<subseteq> dom [s \<mapsto> s] \<union> snd ` set (edges_all g)"
    using assms(1) findShortestPaths_loop_keys unfolding findShortestPaths_def
    by blast
  then show ?thesis using assms(2,3) by auto
qed

theorem findShortestPaths_no_entry_for_unreached_witness:
  "findShortestPaths (\<lambda>n. 2) 1 real two_vertices = Some (Returns [1 \<mapsto> 1]) \<and>
   (2::int) \<noteq> 1 \<and> 2 \<notin> snd ` set (edges_all two_vertices) \<and> [1 \<mapsto> 1::int] (2::int) = None"
proof -
  have h1: "findShortestPaths (\<lambda>n. 2) 1 real two_vertices = Some (Returns [1 \<mapsto> 1])"
    by (simp add: findShortestPaths_def two_vertices_def findShortestPaths_loop.simps
        findMinimum_def info_at_def)
  have h2: "(2::int) \<noteq> 1" by simp
  have h3: "2 \<notin> snd ` set (edges_all two_vertices)"
    by (simp add: edges_all_def two_vertices_def)
  show ?thesis
    using h1 h2 h3 findShortestPaths_no_entry_for_unreached [OF h1 h2 h3] by simp
qed

subsection \<open>Strong connectivity of a cycle\<close>

text \<open>
  Claim C2 says that \<open>isStronglyConnected\<close> returns true on the directed cycle of
  \<open>N \<ge> 2\<close> vertices. The code returns false on every such cycle: the first vertex has one
  edge, its target is not yet in the empty \<open>visited\<close>, and \<open>checkConnectivity\<close> returns
  false after the loop.
\<close>

theorem isStronglyConnected_cycle:
  "isStronglyConnected (cycle (Suc (Suc n))) = Some (Returns False)"
proof -
  obtain rest where "cycle (Suc (Suc n)) =
      (1, \<lparr>vinfo = (), edges = [\<lparr>fromVertex = 1, toVertex = 2, einfo = ()\<rparr>]\<rparr>) # rest"
    using cycle_first by blast
  then show ?thesis
    by (simp add: isStronglyConnected_first_vertex)
qed

subsection \<open>Strong connectivity of the smallest graphs\<close>

text \<open>
  Claim C3 says that \<open>isStronglyConnected\<close> returns true on the empty graph and on a graph
  of one vertex and no edges. The code returns true on the empty graph and false on the
  graph that \<open>addVertex\<close> makes of it: \<open>checkConnectivity\<close> finds no edge and returns false.
\<close>

theorem isStronglyConnected_single_vertex:
  "isStronglyConnected (Digraph :: ('v, 'e) Digraph) = Some (Returns True) \<and>
   isStronglyConnected (snd (addVertex k x (Digraph :: ('v, 'e) Digraph))) = Some (Returns False)"
  by (simp add: Digraph_def addVertex_def info_count_def isStronglyConnected_first_vertex)
    (simp add: isStronglyConnected_def)

subsection \<open>Shortest paths in the three-vertex example\<close>

text \<open>
  Claim C4. On the graph with the vertices 1, 2, 3 and the edges from 1 to 2, from 2 to 3
  and from 1 to 3, with a weight function that gives them the weights 1, 1 and 5,
  \<open>findShortestPaths(1, w)\<close> returns the predecessor map that sends 1 to 1, 2 to 1 and 3 to
  2. No call of \<open>findMinimum\<close> reads its uninitialised variable here, so the result is the
  same for all \<open>junk\<close>.
\<close>

theorem findShortestPaths_triangle:
  assumes "w a = 1" and "w b = 1" and "w c = 5"
  shows "findShortestPaths junk 1 w (triangle a b c) = Some (Returns [1 \<mapsto> 1, 2 \<mapsto> 1, 3 \<mapsto> 2])"
  using assms
  by (simp add: findShortestPaths_def triangle_def findShortestPaths_loop.simps findMinimum_def
      info_at_def subscript_def value_at_def)

theorem findShortestPaths_triangle_witness:
  "(\<lambda>x. x) (1::real) = 1 \<and> (\<lambda>x. x) (5::real) = 5 \<and>
   findShortestPaths (\<lambda>n. 0) 1 (\<lambda>x. x) (triangle (1::real) 1 5) =
     Some (Returns [1 \<mapsto> 1, 2 \<mapsto> 1, 3 \<mapsto> 2])"
proof -
  have h1: "(\<lambda>x. x) (1::real) = 1" and h5: "(\<lambda>x. x) (5::real) = 5"
    by simp_all
  show ?thesis
    using h1 h5 findShortestPaths_triangle [OF h1 h1 h5, of "\<lambda>n. 0"] by simp
qed

subsection \<open>Removing a vertex\<close>

text \<open>
  Claim C5 says that \<open>removeVertex(v)\<close> leaves a graph without \<open>v\<close> and without any edge
  from or to \<open>v\<close>. In \<open>one_edge\<close> vertex 2 has the incoming edge from 1: the loop erases the
  list node and then increments the iterator that pointed to it, which C++ leaves
  undefined.
\<close>

theorem removeVertex_with_incoming_edge:
  "removeVertex 2 one_edge = (Undefined, [(1, \<lparr>vinfo = ''a'', edges = []\<rparr>)])"
  by (simp add: removeVertex_def one_edge_def info_count_def info_erase_def)

subsection \<open>Failing mutations\<close>

text \<open>
  Claim C6. A mutation that fails signals its error and leaves the graph as it was. The
  first four conjuncts say that whenever \<open>addVertex\<close>, \<open>addEdge\<close>, \<open>removeVertex\<close> or
  \<open>removeEdge\<close> throws, the graph after the call is the graph before it (vertices, edges
  and payloads). The last four say that the calls do throw in the situations the claim
  lists: \<open>addVertex\<close> on a present identifier, \<open>addEdge\<close> with a missing endpoint or with a
  pair that \<open>edges(from)\<close> already lists, \<open>removeVertex\<close> of a missing vertex and
  \<open>removeEdge\<close> with a missing endpoint or a pair that \<open>edges(from)\<close> does not list.
\<close>

theorem failing_mutation_leaves_graph:
  "(fst (addVertex vertex vi g) = Throws x \<longrightarrow> snd (addVertex vertex vi g) = g) \<and>
   (fst (addEdge a b ei g) = Throws x \<longrightarrow> snd (addEdge a b ei g) = g) \<and>
   (fst (removeVertex vertex g) = Throws x \<longrightarrow> snd (removeVertex vertex g) = g) \<and>
   (fst (removeEdge a b g) = Throws x \<longrightarrow> snd (removeEdge a b g) = g) \<and>
   (vertex \<in> set (vertices g) \<longrightarrow>
      addVertex vertex vi g = (Throws (DigraphException ''Vertex already exists''), g)) \<and>
   (a \<notin> set (vertices g) \<or> b \<notin> set (vertices g) \<or>
    (\<exists>temp. edges_of a g = Returns temp \<and> (a, b) \<in> set temp) \<longrightarrow>
      addEdge a b ei g = (Throws (DigraphException ''Invalid edge''), g)) \<and>
   (vertex \<notin> set (vertices g) \<longrightarrow>
      removeVertex vertex g = (Throws (DigraphException ''Invalid vertex''), g)) \<and>
   (a \<notin> set (vertices g) \<or> b \<notin> set (vertices g) \<or>
    (\<exists>temp. edges_of a g = Returns temp \<and> (a, b) \<notin> set temp) \<longrightarrow>
      removeEdge a b g = (Throws (DigraphException ''Invalid edge''), g))"
proof (intro conjI impI)
  show "snd (addVertex vertex vi g) = g" if "fst (addVertex vertex vi g) = Throws x"
    using that by (auto simp: addVertex_def split: if_splits)
  show "snd (addEdge a b ei g) = g" if "fst (addEdge a b ei g) = Throws x"
    using that by (auto simp: addEdge_def split: if_splits outcome.splits)
  show "snd (removeVertex vertex g) = g" if "fst (removeVertex vertex g) = Throws x"
    using that removeVertex_loop_no_throw [of vertex "info_erase vertex g" x]
    by (auto simp: removeVertex_def split: if_splits prod.splits outcome.splits)
  show "snd (removeEdge a b g) = g" if "fst (removeEdge a b g) = Throws x"
    using that erase_walk_Throws
    by (auto simp: removeEdge_def split: if_splits prod.splits outcome.splits option.splits)
  show "addVertex vertex vi g = (Throws (DigraphException ''Vertex already exists''), g)"
    if "vertex \<in> set (vertices g)"
    using that by (simp add: addVertex_def info_count_iff)
  show "addEdge a b ei g = (Throws (DigraphException ''Invalid edge''), g)"
    if "a \<notin> set (vertices g) \<or> b \<notin> set (vertices g) \<or>
        (\<exists>temp. edges_of a g = Returns temp \<and> (a, b) \<in> set temp)"
    using that by (auto simp: addEdge_def info_count_iff)
  show "removeVertex vertex g = (Throws (DigraphException ''Invalid vertex''), g)"
    if "vertex \<notin> set (vertices g)"
    using that by (simp add: removeVertex_def info_count_iff)
  show "removeEdge a b g = (Throws (DigraphException ''Invalid edge''), g)"
    if "a \<notin> set (vertices g) \<or> b \<notin> set (vertices g) \<or>
        (\<exists>temp. edges_of a g = Returns temp \<and> (a, b) \<notin> set temp)"
    using that by (auto simp: removeEdge_def info_count_iff)
qed

theorem failing_mutation_leaves_graph_witness:
  "addVertex 1 ''c'' one_edge = (Throws (DigraphException ''Vertex already exists''), one_edge) \<and>
   addEdge 1 3 5 one_edge = (Throws (DigraphException ''Invalid edge''), one_edge) \<and>
   addEdge 1 2 5 one_edge = (Throws (DigraphException ''Invalid edge''), one_edge) \<and>
   removeVertex 3 one_edge = (Throws (DigraphException ''Invalid vertex''), one_edge) \<and>
   removeEdge 3 1 one_edge = (Throws (DigraphException ''Invalid edge''), one_edge) \<and>
   removeEdge 2 1 one_edge = (Throws (DigraphException ''Invalid edge''), one_edge)"
proof -
  have v1: "(1::int) \<in> set (vertices one_edge)" and v3: "(3::int) \<notin> set (vertices one_edge)"
    by (simp_all add: one_edge_def vertices_def)
  have dup: "\<exists>temp. edges_of 1 one_edge = Returns temp \<and> (1, 2) \<in> set temp"
    by (simp add: one_edge_def edges_of_def info_count_def info_at_def)
  have mis: "\<exists>temp. edges_of 2 one_edge = Returns temp \<and> (2, 1) \<notin> set temp"
    by (simp add: one_edge_def edges_of_def info_count_def info_at_def)
  note t1 = failing_mutation_leaves_graph [of 1 "''c''" one_edge std_out_of_range 1 3 5]
  note t2 = failing_mutation_leaves_graph [of 3 "''c''" one_edge std_out_of_range 1 2 5]
  note t3 = failing_mutation_leaves_graph [of 3 "''c''" one_edge std_out_of_range 3 1 5]
  note t4 = failing_mutation_leaves_graph [of 3 "''c''" one_edge std_out_of_range 2 1 5]
  have "addVertex 1 ''c'' one_edge = (Throws (DigraphException ''Vertex already exists''), one_edge)"
    using t1 v1 by simp
  moreover have "addEdge 1 3 5 one_edge = (Throws (DigraphException ''Invalid edge''), one_edge)"
    using t1 v3 by simp
  moreover have "addEdge 1 2 5 one_edge = (Throws (DigraphException ''Invalid edge''), one_edge)"
    using t2 dup by simp
  moreover have "removeVertex 3 one_edge = (Throws (DigraphException ''Invalid vertex''), one_edge)"
    using t2 v3 by simp
  moreover have "removeEdge 3 1 one_edge = (Throws (DigraphException ''Invalid edge''), one_edge)"
    using t3 v3 by simp
  moreover have "removeEdge 2 1 one_edge = (Throws (DigraphException ''Invalid edge''), one_edge)"
    using t4 mis by simp
  ultimately show ?thesis by simp
qed

subsection \<open>Counting edges\<close>

text \<open>
  Claim C7 says that \<open>edgeCount()\<close> returns the number of edges, the length of \<open>edges()\<close>.
  The code returns that number added to whatever its uninitialised \<open>total\<close> held.
\<close>

theorem edgeCount_starts_from_indeterminate:
  "edgeCount total0 g = total0 + of_nat (length (edges_all g))"
  unfolding edgeCount_def
  by (induction g arbitrary: total0) (auto simp: edges_all_def)

subsection \<open>Shortest paths: termination\<close>

text \<open>
  Claim C8 says that \<open>findShortestPaths\<close> terminates with a result determined by the graph,
  the start vertex and the weight function, also when some vertex is unreachable. On two
  isolated vertices with start 1 the call does not return when the uninitialised \<open>minVert\<close>
  holds 1, and throws \<open>std::out_of_range\<close> from \<open>info.at\<close> when it holds 3.
\<close>

theorem findShortestPaths_not_returning:
  "findShortestPaths (\<lambda>n. 1) 1 w two_vertices = None \<and>
   findShortestPaths (\<lambda>n. 3) 1 w two_vertices = Some (Throws std_out_of_range)"
proof
  have "findShortestPaths (\<lambda>n. 1) 1 w two_vertices =
        findShortestPaths_loop (\<lambda>n. 1) two_vertices w (Suc 0) [2]
          [2 \<mapsto> 80000000000000, 1 \<mapsto> 0] [1 \<mapsto> 1]"
    unfolding findShortestPaths_def
    by (subst findShortestPaths_loop.simps)
      (simp add: two_vertices_def findMinimum_def info_at_def)
  moreover have "findShortestPaths_loop (\<lambda>n. 1) two_vertices w (Suc 0) [2]
          [2 \<mapsto> 80000000000000, 1 \<mapsto> 0] [1 \<mapsto> 1] \<noteq> Some r" for r
    using stuck_loop [of "\<lambda>n. 1" two_vertices w "Suc 0" "[2]" "[2 \<mapsto> 80000000000000, 1 \<mapsto> 0]" "[1 \<mapsto> 1]" r]
    by auto
  ultimately show "findShortestPaths (\<lambda>n. 1) 1 w two_vertices = None"
    by auto
  show "findShortestPaths (\<lambda>n. 3) 1 w two_vertices = Some (Throws std_out_of_range)"
    by (simp add: findShortestPaths_def two_vertices_def findShortestPaths_loop.simps
        findMinimum_def info_at_def)
qed

subsection \<open>Error signalling\<close>

text \<open>
  Claim C9, as stated, does not hold: the claim has \<open>addEdge\<close> signal one error for an
  absent endpoint and a distinct one for a pair already present, and \<open>edgePayload\<close> and
  \<open>removeEdge\<close> one error for an absent endpoint and a distinct one for a missing edge. In
  \<open>one_edge\<close> vertex 3 is absent, the edge from 1 to 2 is present and the edge from 2 to 1
  is missing between two present vertices; in each pair of calls the two exceptions thrown
  are equal.
\<close>

theorem distinct_error_kinds_counterexample:
  "fst (addEdge 1 3 5 one_edge) = fst (addEdge 1 2 5 one_edge) \<and>
   fst (addEdge 1 2 5 one_edge) = Throws (DigraphException ''Invalid edge'') \<and>
   edgeInfo 3 1 one_edge = edgeInfo 2 1 one_edge \<and>
   edgeInfo 2 1 one_edge = Throws (DigraphException ''Invalid edge'') \<and>
   fst (removeEdge 3 1 one_edge) = fst (removeEdge 2 1 one_edge) \<and>
   fst (removeEdge 2 1 one_edge) = Throws (DigraphException ''Invalid edge'')"
  by (simp add: one_edge_def addEdge_def edgeInfo_def removeEdge_def edges_of_def
      info_count_def info_at_def)

text \<open>
  Claim C9, amended. The following eight precondition failures each throw a
  \<open>DigraphException\<close> with the reason string given; nothing is said here about any other
  way an operation can fail.
  \<^item> \<open>edges(v)\<close>, \<open>vertexInfo(v)\<close>, \<open>edgeCount(v)\<close> and \<open>removeVertex(v)\<close> on an absent
    vertex throw \<open>DigraphException\<close> with the reason \<open>Invalid vertex\<close>;
  \<^item> \<open>addVertex\<close> on a present identifier throws \<open>DigraphException\<close> with the reason
    \<open>Vertex already exists\<close>;
  \<^item> \<open>addEdge\<close> throws \<open>DigraphException\<close> with the reason \<open>Invalid edge\<close> when an
    endpoint is absent and also when \<open>edges(from)\<close> already lists the pair;
  \<^item> \<open>edgeInfo\<close> and \<open>removeEdge\<close> throw \<open>DigraphException\<close> with the reason
    \<open>Invalid edge\<close> when an endpoint is absent and also when \<open>edges(from)\<close> does not list
    the pair.
\<close>

theorem one_exception_type:
  "(k \<notin> set (vertices g) \<longrightarrow>
      edges_of k g = Throws (DigraphException ''Invalid vertex'') \<and>
      vertexInfo k g = Throws (DigraphException ''Invalid vertex'') \<and>
      edgeCount_of k g = Throws (DigraphException ''Invalid vertex'') \<and>
      fst (removeVertex k g) = Throws (DigraphException ''Invalid vertex'')) \<and>
   (k \<in> set (vertices g) \<longrightarrow>
      fst (addVertex k vi g) = Throws (DigraphException ''Vertex already exists'')) \<and>
   (a \<notin> set (vertices g) \<or> b \<notin> set (vertices g) \<or>
    (\<exists>temp. edges_of a g = Returns temp \<and> (a, b) \<in> set temp) \<longrightarrow>
      fst (addEdge a b ei g) = Throws (DigraphException ''Invalid edge'')) \<and>
   (a \<notin> set (vertices g) \<or> b \<notin> set (vertices g) \<or>
    (\<exists>temp. edges_of a g = Returns temp \<and> (a, b) \<notin> set temp) \<longrightarrow>
      edgeInfo a b g = Throws (DigraphException ''Invalid edge'') \<and>
      fst (removeEdge a b g) = Throws (DigraphException ''Invalid edge''))"
proof (intro conjI impI)
  assume "k \<notin> set (vertices g)"
  then show "edges_of k g = Throws (DigraphException ''Invalid vertex'')"
    and "vertexInfo k g = Throws (DigraphException ''Invalid vertex'')"
    and "edgeCount_of k g = Throws (DigraphException ''Invalid vertex'')"
    and "fst (removeVertex k g) = Throws (DigraphException ''Invalid vertex'')"
    by (simp_all add: edges_of_def vertexInfo_def edgeCount_of_def removeVertex_def info_count_iff)
next
  assume "k \<in> set (vertices g)"
  then show "fst (addVertex k vi g) = Throws (DigraphException ''Vertex already exists'')"
    by (simp add: addVertex_def info_count_iff)
next
  assume "a \<notin> set (vertices g) \<or> b \<notin> set (vertices g) \<or>
    (\<exists>temp. edges_of a g = Returns temp \<and> (a, b) \<in> set temp)"
  then show "fst (addEdge a b ei g) = Throws (DigraphException ''Invalid edge'')"
    by (auto simp: addEdge_def info_count_iff)
next
  assume *: "a \<notin> set (vertices g) \<or> b \<notin> set (vertices g) \<or>
    (\<exists>temp. edges_of a g = Returns temp \<and> (a, b) \<notin> set temp)"
  then show "edgeInfo a b g = Throws (DigraphException ''Invalid edge'')"
    by (auto simp: edgeInfo_def info_count_iff)
  from * show "fst (removeEdge a b g) = Throws (DigraphException ''Invalid edge'')"
    by (auto simp: removeEdge_def info_count_iff)
qed

theorem one_exception_type_witness:
  "edges_of 3 one_edge = Throws (DigraphException ''Invalid vertex'') \<and>
   vertexInfo 3 one_edge = Throws (DigraphException ''Invalid vertex'') \<and>
   edgeCount_of 3 one_edge = Throws (DigraphException ''Invalid vertex'') \<and>
   fst (removeVertex 3 one_edge) = Throws (DigraphException ''Invalid vertex'') \<and>
   fst (addVertex 2 ''c'' one_edge) = Throws (DigraphException ''Vertex already exists'') \<and>
   fst (addEdge 1 2 5 one_edge) = Throws (DigraphException ''Invalid edge'') \<and>
   edgeInfo 2 1 one_edge = Throws (DigraphException ''Invalid edge'') \<and>
   fst (removeEdge 2 1 one_edge) = Throws (DigraphException ''Invalid edge'')"
proof -
  have v2: "(2::int) \<in> set (vertices one_edge)" and v3: "(3::int) \<notin> set (vertices one_edge)"
    by (simp_all add: one_edge_def vertices_def)
  have dup: "\<exists>temp. edges_of 1 one_edge = Returns temp \<and> (1, 2) \<in> set temp"
    by (simp add: one_edge_def edges_of_def info_count_def info_at_def)
  have mis: "\<exists>temp. edges_of 2 one_edge = Returns temp \<and> (2, 1) \<notin> set temp"
    by (simp add: one_edge_def edges_of_def info_count_def info_at_def)
  note t1 = one_exception_type [of 3 one_edge "''c''" 1 2 5]
  note t2 = one_exception_type [of 2 one_edge "''c''" 2 1 5]
  show ?thesis
    using t1 t2 v2 v3 dup mis by simp
qed

subsection \<open>Self-loops\<close>

text \<open>
  Claim C10. Self-loops are permitted: when \<open>v\<close> is a vertex of the graph and \<open>edges(v)\<close>
  does not list the pair \<open>(v, v)\<close>, \<open>addEdge(v, v, p)\<close> returns normally; in the graph it
  leaves, \<open>edgeInfo(v, v)\<close> returns \<open>p\<close>, \<open>edges(v)\<close> lists the loop after the edges it
  listed before, \<open>edgeCount(v)\<close> is one more than before, and \<open>edges()\<close> contains \<open>(v, v)\<close>.
\<close>

theorem self_loop_permitted:
  assumes "edges_of v g = Returns temp" and "(v, v) \<notin> set temp"
  shows "\<exists>g'. addEdge v v p g = (Returns (), g') \<and>
              edgeInfo v v g' = Returns p \<and>
              edges_of v g' = Returns (temp @ [(v, v)]) \<and>
              (\<exists>n. edgeCount_of v g = Returns n \<and> edgeCount_of v g' = Returns (n + 1)) \<and>
              (v, v) \<in> set (edges_all g')"
proof -
  obtain vx where vx: "info_at v g = Some vx"
    and temp: "temp = map (\<lambda>e. (v, toVertex e)) (edges vx)"
    using assms(1) by (auto simp: edges_of_Returns)
  have present: "v \<in> set (vertices g)"
    using vx info_at_Some_iff by blast
  define loop where "loop = \<lparr>fromVertex = v, toVertex = v, einfo = p\<rparr>"
  define g' where "g' = info_modify v (\<lambda>x. x\<lparr>edges := edges x @ [loop]\<rparr>) g"
  have no_loop: "\<forall>e \<in> set (edges vx). \<not> toVertex e = v"
    using assms(2) temp by auto
  have add: "addEdge v v p g = (Returns (), g')"
    using assms present by (simp add: addEdge_def info_count_iff g'_def loop_def)
  have at': "info_at v g' = Some (vx\<lparr>edges := edges vx @ [loop]\<rparr>)"
    by (simp add: g'_def info_at_info_modify vx)
  have present': "v \<in> set (vertices g')"
    by (simp add: g'_def vertices_info_modify present)
  have edges': "edges_of v g' = Returns (temp @ [(v, v)])"
    by (simp add: edges_of_Returns at' temp loop_def)
  have found: "find (\<lambda>e. toVertex e = v) (edges vx @ [loop]) = Some loop"
    using no_loop by (intro find_appended) (simp_all add: loop_def)
  have info: "edgeInfo v v g' = Returns p"
    using present' by (simp add: edgeInfo_def info_count_iff edges' at' found) (simp add: loop_def)
  have count: "edgeCount_of v g = Returns (of_nat (length (edges vx)))"
    using present by (simp add: edgeCount_of_def info_count_iff vx)
  have count': "edgeCount_of v g' = Returns (of_nat (length (edges vx)) + 1)"
    using present' by (simp add: edgeCount_of_def info_count_iff at')
  have "(v, vx\<lparr>edges := edges vx @ [loop]\<rparr>) \<in> set g'"
    unfolding g'_def using info_modify_mem [OF vx] by fast
  from edges_all_mem [OF this, of loop] have listed: "(v, v) \<in> set (edges_all g')"
    by (simp add: loop_def)
  show ?thesis
    using add info edges' count count' listed by blast
qed

theorem self_loop_permitted_witness:
  "edges_of 1 one_edge = Returns [(1, 2)] \<and> (1, 1) \<notin> set [(1::int, 2::int)] \<and>
   (\<exists>g'. addEdge 1 1 9 one_edge = (Returns (), g') \<and>
         edgeInfo 1 1 g' = Returns 9 \<and>
         edges_of 1 g' = Returns ([(1, 2)] @ [(1, 1)]) \<and>
         (\<exists>n. edgeCount_of 1 one_edge = Returns n \<and> edgeCount_of 1 g' = Returns (n + 1)) \<and>
         (1, 1) \<in> set (edges_all g'))"
proof -
  have h1: "edges_of 1 one_edge = Returns [(1, 2)]"
    by (simp add: one_edge_def edges_of_def info_count_def info_at_def)
  have h2: "(1, 1) \<notin> set [(1::int, 2::int)]"
    by simp
  show ?thesis
    using h1 h2 self_loop_permitted [OF h1 h2, of 9] by simp
qed

end
